theory Spec2Isabelle
  imports Main "HOL-Library.Word" "HOL-Library.Sublist" "HOL-Library.List_Lexorder"
    "HOL-Library.Char_ord"
begin

section \<open>Data model\<close>

text \<open>
  The repository is a command-line RTSP client: \<^verbatim>\<open>src/main.go\<close> and a shorter variant,
  \<^verbatim>\<open>src/unnamed/part_000\<close>, which stops after printing the session description.
  All protocol work is done by the libraries gortsplib, pion/rtp and encoding/json;
  the program sequences their calls and writes log lines.

  A Go \<^verbatim>\<open>error\<close> is represented by its message text.
\<close>

type_synonym err = string

text \<open>\<^verbatim>\<open>base.URL\<close>: the program reads \<^verbatim>\<open>Scheme\<close> and \<^verbatim>\<open>Host\<close> and hands the whole value on.\<close>

record URL =
  Scheme :: string
  Host :: string
  Path :: string

text \<open>
  \<^verbatim>\<open>gortsplib.Client\<close>, restricted to the three fields the program sets.
  \<^verbatim>\<open>time.Duration\<close> is a count of nanoseconds.
\<close>

record Client =
  ReadTimeout :: int
  WriteTimeout :: int
  AnyPortEnable :: bool

definition Second :: int where
  "Second = 1000000000"

text \<open>\<^verbatim>\<open>description.Media\<close>, \<^verbatim>\<open>format.Format\<close> and \<^verbatim>\<open>description.Session\<close>.\<close>

record Media =
  MediaType :: string
  Control :: string

type_synonym Format = string

record Session =
  BaseURL :: "URL option"
  Medias :: "Media list"

text \<open>A Go slice is \<^verbatim>\<open>nil\<close> or holds a sequence of elements.\<close>

type_synonym 'a slice = "'a list option"

text \<open>\<^verbatim>\<open>rtp.Extension\<close> and \<^verbatim>\<open>rtp.Packet\<close> (the header is embedded in the packet).\<close>

record RTP_Extension =
  ext_id :: "8 word"
  ext_payload :: "8 word slice"

record Packet =
  Version :: "8 word"
  Padding :: bool
  Extension :: bool
  Marker :: bool
  PayloadType :: "8 word"
  SequenceNumber :: "16 word"
  Timestamp :: "32 word"
  SSRC :: "32 word"
  CSRC :: "32 word slice"
  ExtensionProfile :: "16 word"
  Extensions :: "RTP_Extension slice"
  Payload :: "8 word slice"

text \<open>The values stored in the callback's \<^verbatim>\<open>map[string]any\<close>, by their Go type.\<close>

datatype jvalue =
    JUint8 "8 word"
  | JUint16 "16 word"
  | JUint32 "32 word"
  | JBool bool
  | JUint32s "32 word slice"
  | JExtensions "RTP_Extension slice"

text \<open>One invocation of the packet callback: the media, the format and the packet.\<close>

type_synonym delivery = "Media \<times> Format \<times> Packet"

section \<open>The environment\<close>

text \<open>
  The library calls are parameters of the model. Each of \<^verbatim>\<open>Start\<close>, \<^verbatim>\<open>Describe\<close>,
  \<^verbatim>\<open>SetupAll\<close> and \<^verbatim>\<open>Play\<close> is called at most once in a run, so one answer per call
  covers every behaviour of the library and of the server. The packets the library hands
  to the callback come as two lists: those that arrive while \<^verbatim>\<open>Play\<close> has not yet
  returned, and those that arrive afterwards. Each callback invocation is taken as
  atomic with respect to the log lines of the main routine.
\<close>

record env =
  ParseURL :: "string \<Rightarrow> err + URL"
  Start :: "Client \<Rightarrow> string \<Rightarrow> string \<Rightarrow> err option"
  Describe :: "URL \<Rightarrow> err + Session"
  MarshalIndentDesc :: "Session \<Rightarrow> err + string"
  SetupAll :: "URL option \<Rightarrow> Media list \<Rightarrow> err option"
  MarshalIndentPkt :: "(string \<rightharpoonup> jvalue) \<Rightarrow> err + string"
  Play :: "err option"
  arrivals_in_play :: "delivery list"
  arrivals_after :: "delivery list"

section \<open>Observable events\<close>

text \<open>One constructor per logging call site of the source, with the values it prints.\<close>

datatype logmsg =
    Usage string
  | CannotParse err
  | Starting string
  | ConnectError err
  | DescribeError err
  | DescMarshalError err
  | SDPHeader
  | DescJSON string
  | SetupError err
  | PktMarshalError err
  | PktHeader
  | PktJSON string
  | PlayError err
  | Streaming

text \<open>The text of each log line (without the timestamp prefix of the logger).\<close>

fun render :: "logmsg \<Rightarrow> string" where
  "render (Usage a0) = ''Usage: '' @ a0 @ '' <rtsp-url>''"
| "render (CannotParse e) = ''Cannot parse RTSP URL : '' @ e"
| "render (Starting u) = ''Starting RTSP client for URL : '' @ u"
| "render (ConnectError e) = ''Error connecting to server: '' @ e"
| "render (DescribeError e) = ''Error during DESCRIBE: '' @ e"
| "render (DescMarshalError e) = ''Error marshaling SDP description to JSON: '' @ e"
| "render SDPHeader = ''SDP in JSON:''"
| "render (DescJSON s) = s"
| "render (SetupError e) = ''Error setting up medias: '' @ e"
| "render (PktMarshalError e) = ''Error marshaling RTP packet to JSON: '' @ e"
| "render PktHeader = ''Received RTP packet:''"
| "render (PktJSON s) = s"
| "render (PlayError e) = ''Error during PLAY: '' @ e"
| "render Streaming = ''Streaming... Press Ctrl+C to exit.''"

datatype event =
    Log logmsg
  | CallStart Client string string
  | CallDescribe URL
  | CallSetupAll "URL option" "Media list"
  | CallOnPacketRTPAny
  | CallPlay
  | CallClose

text \<open>
  How a run ends: \<^verbatim>\<open>log.Fatal*\<close> exits the process with status 1 (deferred calls do
  not run), an out-of-range index panics, \<^verbatim>\<open>select {}\<close> blocks for ever, and the
  shorter variant returns from \<^verbatim>\<open>main\<close>.
\<close>

datatype outcome = Exited | Panicked | Blocked | Returned

fun is_Log :: "event \<Rightarrow> bool" where
  "is_Log (Log m) = True"
| "is_Log _ = False"

fun is_DescJSON :: "event \<Rightarrow> bool" where
  "is_DescJSON (Log (DescJSON s)) = True"
| "is_DescJSON _ = False"

fun is_PktJSON :: "event \<Rightarrow> bool" where
  "is_PktJSON (Log (PktJSON s)) = True"
| "is_PktJSON _ = False"

fun is_CallSetupAll :: "event \<Rightarrow> bool" where
  "is_CallSetupAll (CallSetupAll b ms) = True"
| "is_CallSetupAll _ = False"

text \<open>The events that only the packet callback produces.\<close>

fun is_pkt_event :: "event \<Rightarrow> bool" where
  "is_pkt_event (Log (PktMarshalError e)) = True"
| "is_pkt_event (Log PktHeader) = True"
| "is_pkt_event (Log (PktJSON s)) = True"
| "is_pkt_event _ = False"

section \<open>The packet callback (main.go, lines 90 to 112)\<close>

definition packetInfo :: "Packet \<Rightarrow> (string \<rightharpoonup> jvalue)" where
  "packetInfo pkt =
     [''version'' \<mapsto> JUint8 (Version pkt),
      ''sequence_number'' \<mapsto> JUint16 (SequenceNumber pkt),
      ''timestamp'' \<mapsto> JUint32 (Timestamp pkt),
      ''extension'' \<mapsto> JBool (Extension pkt),
      ''padding'' \<mapsto> JBool (Padding pkt),
      ''marker'' \<mapsto> JBool (Marker pkt),
      ''payload_type'' \<mapsto> JUint8 (PayloadType pkt),
      ''ssrc'' \<mapsto> JUint32 (SSRC pkt),
      ''csrc'' \<mapsto> JUint32s (CSRC pkt),
      ''extensions'' \<mapsto> JExtensions (Extensions pkt),
      ''extension_profile'' \<mapsto> JUint16 (ExtensionProfile pkt)]"

text \<open>The callback appends its log lines to the log written so far.\<close>

fun onPacketRTP :: "env \<Rightarrow> delivery \<Rightarrow> event list \<Rightarrow> event list" where
  "onPacketRTP env (medi, forma, pkt) t =
     (case MarshalIndentPkt env (packetInfo pkt) of
        Inl e \<Rightarrow> t @ [Log (PktMarshalError e)]
      | Inr packetJSON \<Rightarrow> t @ [Log PktHeader, Log (PktJSON packetJSON)])"

text \<open>The library invokes the registered callback once for each packet, in arrival order.\<close>

fun deliver :: "env \<Rightarrow> event list \<Rightarrow> delivery list \<Rightarrow> event list" where
  "deliver env t [] = t"
| "deliver env t (d # ds) = deliver env (onPacketRTP env d t) ds"

section \<open>The main routine of main.go\<close>

definition main :: "env \<Rightarrow> string list \<Rightarrow> event list \<times> outcome" where
  "main env Args =
     (if length Args < 2 then
        (case Args of
           [] \<Rightarrow> ([], Panicked)
         | a0 # _ \<Rightarrow> ([Log (Usage a0)], Exited))
      else
        (let rtspURL = Args ! 1 in
        (case ParseURL env rtspURL of
          Inl e \<Rightarrow> ([Log (CannotParse e)], Exited)
        | Inr parsedURL \<Rightarrow>
            (let t = [Log (Starting rtspURL)];
                client = \<lparr>ReadTimeout = 5 * Second, WriteTimeout = 5 * Second,
                          AnyPortEnable = True\<rparr>;
                t = t @ [CallStart client (Scheme parsedURL) (Host parsedURL)]
            in
            (case Start env client (Scheme parsedURL) (Host parsedURL) of
              Some e \<Rightarrow> (t @ [Log (ConnectError e)], Exited)
            | None \<Rightarrow>
                (let t = t @ [CallDescribe parsedURL] in
                (case Describe env parsedURL of
                  Inl e \<Rightarrow> (t @ [Log (DescribeError e)], Exited)
                | Inr desc \<Rightarrow>
                    (let t = (case MarshalIndentDesc env desc of
                               Inl e \<Rightarrow> t @ [Log (DescMarshalError e)]
                             | Inr descJSON \<Rightarrow> t @ [Log SDPHeader, Log (DescJSON descJSON)]);
                        t = t @ [CallSetupAll (BaseURL desc) (Medias desc)];
                        t = (case SetupAll env (BaseURL desc) (Medias desc) of
                               Some e \<Rightarrow> t @ [Log (SetupError e)]
                             | None \<Rightarrow> t);
                        t = t @ [CallOnPacketRTPAny];
                        t = t @ [CallPlay];
                        t = deliver env t (arrivals_in_play env);
                        t = (case Play env of
                               Some e \<Rightarrow> t @ [Log (PlayError e)]
                             | None \<Rightarrow> t);
                        t = t @ [Log Streaming];
                        t = deliver env t (arrivals_after env)
                    in (t, Blocked)))))))))"

section \<open>The main routine of the shorter variant (unnamed/part\_000)\<close>

text \<open>
  The variant returns after the description has been printed; the deferred
  \<^verbatim>\<open>client.Close()\<close> runs on that return and on no other exit.
\<close>

definition main_part_000 :: "env \<Rightarrow> string list \<Rightarrow> event list \<times> outcome" where
  "main_part_000 env Args =
     (if length Args < 2 then
        (case Args of
           [] \<Rightarrow> ([], Panicked)
         | a0 # _ \<Rightarrow> ([Log (Usage a0)], Exited))
      else
        (let rtspURL = Args ! 1 in
        (case ParseURL env rtspURL of
          Inl e \<Rightarrow> ([Log (CannotParse e)], Exited)
        | Inr url \<Rightarrow>
            (let t = [Log (Starting rtspURL)];
                client = \<lparr>ReadTimeout = 5 * Second, WriteTimeout = 5 * Second,
                          AnyPortEnable = True\<rparr>;
                t = t @ [CallStart client (Scheme url) (Host url)]
            in
            (case Start env client (Scheme url) (Host url) of
              Some e \<Rightarrow> (t @ [Log (ConnectError e)], Exited)
            | None \<Rightarrow>
                (let t = t @ [CallDescribe url] in
                (case Describe env url of
                  Inl e \<Rightarrow> (t @ [Log (DescribeError e)], Exited)
                | Inr desc \<Rightarrow>
                    (let t = (case MarshalIndentDesc env desc of
                               Inl e \<Rightarrow> t @ [Log (DescMarshalError e)]
                             | Inr descJSON \<Rightarrow> t @ [Log SDPHeader, Log (DescJSON descJSON)]);
                        t = t @ [CallClose]
                    in (t, Returned)))))))))"

section \<open>The packet serializer of encoding/json\<close>

text \<open>
  \<^verbatim>\<open>json.MarshalIndent\<close> belongs to the Go standard library, not to the repository, and
  the runs above take it as a parameter. To say what an emitted packet block holds, its
  documented behaviour on the callback's map is written out here: a map becomes a JSON
  object whose members are the map's entries in the sorted order of their keys; an
  unsigned integer becomes a number, a boolean \<^verbatim>\<open>true\<close> or \<^verbatim>\<open>false\<close>, a slice an
  array and a \<^verbatim>\<open>nil\<close> slice \<^verbatim>\<open>null\<close>; a struct becomes an object of its exported
  fields, of which \<^verbatim>\<open>rtp.Extension\<close> has none. The text puts every member and every
  array element on a line of its own, indented once per nesting level.
\<close>

datatype json =
    JNull
  | JBoolean bool
  | JNumber nat
  | JArray "json list"
  | JObject "(string \<times> json) list"

fun encode :: "jvalue \<Rightarrow> json" where
  "encode (JUint8 w) = JNumber (unat w)"
| "encode (JUint16 w) = JNumber (unat w)"
| "encode (JUint32 w) = JNumber (unat w)"
| "encode (JBool b) = JBoolean b"
| "encode (JUint32s None) = JNull"
| "encode (JUint32s (Some ws)) = JArray (map (\<lambda>w. JNumber (unat w)) ws)"
| "encode (JExtensions None) = JNull"
| "encode (JExtensions (Some es)) = JArray (map (\<lambda>e. JObject []) es)"

definition marshal_map :: "(string \<rightharpoonup> jvalue) \<Rightarrow> json" where
  "marshal_map m =
     JObject (map (\<lambda>k. (k, encode (the (m k)))) (sorted_list_of_set (dom m)))"

text \<open>The double quote and the line feed.\<close>

definition dq :: char where
  "dq = CHR 0x22"

definition nl :: char where
  "nl = CHR 0x0A"

function decimal :: "nat \<Rightarrow> string" where
  "decimal n =
     (if n < 10 then [''0123456789'' ! n]
      else decimal (n div 10) @ [''0123456789'' ! (n mod 10)])"
  by pat_completeness auto
termination
  by (relation "measure (\<lambda>n. n)") auto

declare decimal.simps [simp del]

definition indent_at :: "string \<Rightarrow> nat \<Rightarrow> string" where
  "indent_at ind d = concat (replicate d ind)"

text \<open>
  The indented text of a JSON value at nesting depth \<open>d\<close>. The keys of the callback's
  map need no escaping.
\<close>

fun json_text :: "string \<Rightarrow> nat \<Rightarrow> json \<Rightarrow> string"
  and elems_text :: "string \<Rightarrow> nat \<Rightarrow> json list \<Rightarrow> string"
  and members_text :: "string \<Rightarrow> nat \<Rightarrow> (string \<times> json) list \<Rightarrow> string" where
  "json_text ind d JNull = ''null''"
| "json_text ind d (JBoolean b) = (if b then ''true'' else ''false'')"
| "json_text ind d (JNumber n) = decimal n"
| "json_text ind d (JArray []) = ''[]''"
| "json_text ind d (JArray (x # xs)) =
     ''['' @ [nl] @ elems_text ind (Suc d) (x # xs) @ [nl] @ indent_at ind d @ '']''"
| "json_text ind d (JObject []) = ''{}''"
| "json_text ind d (JObject (m # ms)) =
     ''{'' @ [nl] @ members_text ind (Suc d) (m # ms) @ [nl] @ indent_at ind d @ ''}''"
| "elems_text ind d [] = []"
| "elems_text ind d [x] = indent_at ind d @ json_text ind d x"
| "elems_text ind d (x # y # ys) =
     indent_at ind d @ json_text ind d x @ '','' @ [nl] @ elems_text ind d (y # ys)"
| "members_text ind d [] = []"
| "members_text ind d [(k, v)] = indent_at ind d @ [dq] @ k @ [dq] @ '': '' @ json_text ind d v"
| "members_text ind d ((k, v) # m # ms) =
     indent_at ind d @ [dq] @ k @ [dq] @ '': '' @ json_text ind d v @ '','' @ [nl]
       @ members_text ind d (m # ms)"

text \<open>\<^verbatim>\<open>json.MarshalIndent(m, "", indent)\<close> on a map of the callback's value types.\<close>

definition json_MarshalIndent :: "string \<Rightarrow> (string \<rightharpoonup> jvalue) \<Rightarrow> err + string" where
  "json_MarshalIndent ind m = Inr (json_text ind 0 (marshal_map m))"

section \<open>Vocabulary for the statements\<close>

text \<open>The client configuration that both variants construct.\<close>

abbreviation (input) the_client :: Client where
  "the_client \<equiv> \<lparr>ReadTimeout = 5 * Second, WriteTimeout = 5 * Second, AnyPortEnable = True\<rparr>"

text \<open>The log lines of the three non-fatal steps of the main routine.\<close>

definition desc_events :: "env \<Rightarrow> Session \<Rightarrow> event list" where
  "desc_events env desc =
     (case MarshalIndentDesc env desc of
        Inl e \<Rightarrow> [Log (DescMarshalError e)]
      | Inr s \<Rightarrow> [Log SDPHeader, Log (DescJSON s)])"

definition setup_events :: "env \<Rightarrow> Session \<Rightarrow> event list" where
  "setup_events env desc =
     (case SetupAll env (BaseURL desc) (Medias desc) of
        Some e \<Rightarrow> [Log (SetupError e)]
      | None \<Rightarrow> [])"

definition play_events :: "env \<Rightarrow> event list" where
  "play_events env = (case Play env of Some e \<Rightarrow> [Log (PlayError e)] | None \<Rightarrow> [])"

section \<open>Example runs\<close>

definition args0 :: "string list" where
  "args0 = [''rtsp-client'', ''rtsp://localhost:8554/mystream'']"

definition url0 :: URL where
  "url0 = \<lparr>Scheme = ''rtsp'', Host = ''localhost:8554'', Path = ''/mystream''\<rparr>"

definition video0 :: Media where
  "video0 = \<lparr>MediaType = ''video'', Control = ''trackID=0''\<rparr>"

definition audio0 :: Media where
  "audio0 = \<lparr>MediaType = ''audio'', Control = ''trackID=1''\<rparr>"

definition desc0 :: Session where
  "desc0 = \<lparr>BaseURL = Some url0, Medias = [video0, audio0]\<rparr>"

definition pkt0 :: Packet where
  "pkt0 = \<lparr>Version = 2, Padding = False, Extension = False, Marker = True,
            PayloadType = 96, SequenceNumber = 1000, Timestamp = 90000, SSRC = 11,
            CSRC = Some [], ExtensionProfile = 0, Extensions = None,
            Payload = Some [1, 2, 3]\<rparr>"

definition pkt1 :: Packet where
  "pkt1 = \<lparr>Version = 2, Padding = False, Extension = False, Marker = False,
            PayloadType = 97, SequenceNumber = 1001, Timestamp = 48000, SSRC = 12,
            CSRC = Some [11], ExtensionProfile = 0, Extensions = None,
            Payload = Some [4]\<rparr>"

text \<open>
  A run against a server with a video and an audio stream. The stand-in packet
  serializer accepts the packets of payload type 97 and rejects every other packet.
\<close>

definition env_ok :: env where
  "env_ok =
     \<lparr>ParseURL = (\<lambda>s. if s = ''rtsp://localhost:8554/mystream'' then Inr url0
                       else Inl ''invalid URL''),
      Start = (\<lambda>c s h. None),
      Describe = (\<lambda>u. Inr desc0),
      MarshalIndentDesc = (\<lambda>d. Inr ''{ }''),
      SetupAll = (\<lambda>b ms. None),
      MarshalIndentPkt = (\<lambda>m. if m ''payload_type'' = Some (JUint8 97) then Inr ''{ }''
                               else Inl ''json: unsupported value''),
      Play = None,
      arrivals_in_play = [(video0, ''H264'', pkt0)],
      arrivals_after = [(audio0, ''Opus'', pkt1)]\<rparr>"

definition env_describe_fails :: env where
  "env_describe_fails = env_ok\<lparr>Describe := (\<lambda>u. Inl ''bad status code: 404'')\<rparr>"

definition env_unreachable :: env where
  "env_unreachable = env_ok\<lparr>Start := (\<lambda>c s h. Some ''connection refused'')\<rparr>"

definition env_desc_unserializable :: env where
  "env_desc_unserializable =
     env_ok\<lparr>MarshalIndentDesc := (\<lambda>d. Inl ''json: unsupported type'')\<rparr>"

definition env_setup_play_fail :: env where
  "env_setup_play_fail =
     env_ok\<lparr>SetupAll := (\<lambda>b ms. Some ''bad status code: 461''),
            Play := Some ''bad status code: 455''\<rparr>"

text \<open>The same run with the packet serializer of encoding/json.\<close>

definition env_json :: env where
  "env_json = env_ok\<lparr>MarshalIndentPkt := json_MarshalIndent ''  ''\<rparr>"

text \<open>A run in which neither the description nor the first packet can be serialized.\<close>

definition env_packet_unserializable :: env where
  "env_packet_unserializable =
     env_desc_unserializable\<lparr>arrivals_after := [(video0, ''H264'', pkt0), (audio0, ''Opus'', pkt1)]\<rparr>"

section \<open>Structure of the runs\<close>

lemma onPacketRTP_append: "onPacketRTP env d t = t @ onPacketRTP env d []"
  by (cases d) (simp split: sum.splits)

lemma deliver_append: "deliver env t ds = t @ deliver env [] ds"
proof (induction ds arbitrary: t)
  case Nil
  show ?case by simp
next
  case (Cons d ds)
  have "deliver env t (d # ds) = onPacketRTP env d t @ deliver env [] ds"
    using Cons.IH [of "onPacketRTP env d t"] by simp
  also have "\<dots> = t @ onPacketRTP env d [] @ deliver env [] ds"
    using onPacketRTP_append [of env d t] by simp
  also have "\<dots> = t @ deliver env [] (d # ds)"
    using Cons.IH [of "onPacketRTP env d []"] by simp
  finally show ?case .
qed

lemma deliver_Cons: "deliver env t (d # ds) = t @ onPacketRTP env d [] @ deliver env [] ds"
  using deliver_append [of env "onPacketRTP env d t" ds] onPacketRTP_append [of env d t] by simp

lemma deliver_app2: "deliver env t (ds @ ds') = deliver env t ds @ deliver env [] ds'"
proof (induction ds arbitrary: t)
  case Nil
  show ?case using deliver_append [of env t ds'] by simp
next
  case (Cons d ds)
  show ?case using Cons.IH [of "onPacketRTP env d t"] by simp
qed

lemma onPacketRTP_pkt_events: "list_all is_pkt_event (onPacketRTP env d [])"
  by (cases d) (simp split: sum.splits)

lemma deliver_pkt_events: "list_all is_pkt_event (deliver env [] ds)"
proof (induction ds)
  case Nil
  show ?case by simp
next
  case (Cons d ds)
  show ?case using Cons.IH onPacketRTP_pkt_events [of env d] deliver_Cons [of env "[]" d ds] by simp
qed

lemma deliver_acc_Cons: "deliver env (x # t) ds = x # t @ deliver env [] ds"
  using deliver_append [of env "x # t" ds] by simp

lemma main_described:
  assumes "2 \<le> length Args" and "ParseURL env (Args ! 1) = Inr u"
    and "Start env the_client (Scheme u) (Host u) = None"
    and "Describe env u = Inr desc"
  shows "main env Args =
     ([Log (Starting (Args ! 1)), CallStart the_client (Scheme u) (Host u), CallDescribe u]
        @ desc_events env desc
        @ [CallSetupAll (BaseURL desc) (Medias desc)]
        @ setup_events env desc
        @ [CallOnPacketRTPAny, CallPlay]
        @ deliver env [] (arrivals_in_play env)
        @ play_events env
        @ [Log Streaming]
        @ deliver env [] (arrivals_after env), Blocked)"
  using assms
  by (simp add: main_def Let_def desc_events_def setup_events_def play_events_def
      deliver_acc_Cons split: sum.splits option.splits)

lemma main_no_args: "main env [] = ([], Panicked)"
  by (simp add: main_def)

lemma main_usage: "main env [a0] = ([Log (Usage a0)], Exited)"
  by (simp add: main_def)

lemma main_bad_url:
  assumes "2 \<le> length Args" and "ParseURL env (Args ! 1) = Inl e"
  shows "main env Args = ([Log (CannotParse e)], Exited)"
  using assms by (simp add: main_def Let_def)

lemma main_connect_failed:
  assumes "2 \<le> length Args" and "ParseURL env (Args ! 1) = Inr u"
    and "Start env the_client (Scheme u) (Host u) = Some e"
  shows "main env Args =
     ([Log (Starting (Args ! 1)), CallStart the_client (Scheme u) (Host u),
       Log (ConnectError e)], Exited)"
  using assms by (simp add: main_def Let_def)

lemma main_describe_failed:
  assumes "2 \<le> length Args" and "ParseURL env (Args ! 1) = Inr u"
    and "Start env the_client (Scheme u) (Host u) = None"
    and "Describe env u = Inl e"
  shows "main env Args =
     ([Log (Starting (Args ! 1)), CallStart the_client (Scheme u) (Host u),
       CallDescribe u, Log (DescribeError e)], Exited)"
  using assms by (simp add: main_def Let_def)

lemma main_cases [case_names no_args usage bad_url connect describe described]:
  obtains "Args = []"
  | a0 where "Args = [a0]"
  | e where "2 \<le> length Args" and "ParseURL env (Args ! 1) = Inl e"
  | u e where "2 \<le> length Args" and "ParseURL env (Args ! 1) = Inr u"
      and "Start env the_client (Scheme u) (Host u) = Some e"
  | u e where "2 \<le> length Args" and "ParseURL env (Args ! 1) = Inr u"
      and "Start env the_client (Scheme u) (Host u) = None"
      and "Describe env u = Inl e"
  | u desc where "2 \<le> length Args" and "ParseURL env (Args ! 1) = Inr u"
      and "Start env the_client (Scheme u) (Host u) = None"
      and "Describe env u = Inr desc"
proof (cases "length Args < 2")
  case True
  then have "Args = [] \<or> (\<exists>a0. Args = [a0])"
    by (cases Args) (auto simp: length_Suc_conv)
  then show ?thesis using that(1,2) by blast
next
  case False
  then have len: "2 \<le> length Args" by simp
  show ?thesis
  proof (cases "ParseURL env (Args ! 1)")
    case (Inl e)
    then show ?thesis using len that(3) by blast
  next
    case (Inr u)
    show ?thesis
    proof (cases "Start env the_client (Scheme u) (Host u)")
      case (Some e)
      then show ?thesis using len Inr that(4) by blast
    next
      case None
      show ?thesis
      proof (cases "Describe env u")
        case (Inl e)
        then show ?thesis using len Inr None that(5) by blast
      next
        case (Inr desc)
        then show ?thesis using len \<open>ParseURL env (Args ! 1) = Inr u\<close> None that(6) by blast
      qed
    qed
  qed
qed

lemma deliver_no_DescJSON: "filter is_DescJSON (deliver env [] ds) = []"
proof -
  have "\<And>ev. is_pkt_event ev \<Longrightarrow> \<not> is_DescJSON ev"
  proof -
    fix ev :: event
    assume "is_pkt_event ev"
    then show "\<not> is_DescJSON ev"
      by (cases ev rule: is_pkt_event.cases) simp_all
  qed
  then show ?thesis
    using deliver_pkt_events [of env ds] by (auto simp: filter_empty_conv list_all_iff)
qed



lemma desc_events_no_pkt: "filter is_pkt_event (desc_events env desc) = []"
  by (simp add: desc_events_def split: sum.splits)

lemma setup_events_no_pkt: "filter is_pkt_event (setup_events env desc) = []"
  by (simp add: setup_events_def split: option.splits)



lemma setup_events_no_DescJSON: "filter is_DescJSON (setup_events env desc) = []"
  by (simp add: setup_events_def split: option.splits)

lemma play_events_no_DescJSON: "filter is_DescJSON (play_events env) = []"
  by (simp add: play_events_def split: option.splits)




lemmas example_defs = args0_def url0_def desc0_def env_ok_def env_describe_fails_def
  env_unreachable_def env_desc_unserializable_def env_setup_play_fail_def

text \<open>The runs of the shorter variant.\<close>

lemma main_part_000_no_args: "main_part_000 env [] = ([], Panicked)"
  by (simp add: main_part_000_def)

lemma main_part_000_usage: "main_part_000 env [a0] = ([Log (Usage a0)], Exited)"
  by (simp add: main_part_000_def)

lemma main_part_000_bad_url:
  assumes "2 \<le> length Args" and "ParseURL env (Args ! 1) = Inl e"
  shows "main_part_000 env Args = ([Log (CannotParse e)], Exited)"
  using assms by (simp add: main_part_000_def Let_def)

lemma main_part_000_connect_failed:
  assumes "2 \<le> length Args" and "ParseURL env (Args ! 1) = Inr u"
    and "Start env the_client (Scheme u) (Host u) = Some e"
  shows "main_part_000 env Args =
     ([Log (Starting (Args ! 1)), CallStart the_client (Scheme u) (Host u),
       Log (ConnectError e)], Exited)"
  using assms by (simp add: main_part_000_def Let_def)

lemma main_part_000_describe_failed:
  assumes "2 \<le> length Args" and "ParseURL env (Args ! 1) = Inr u"
    and "Start env the_client (Scheme u) (Host u) = None"
    and "Describe env u = Inl e"
  shows "main_part_000 env Args =
     ([Log (Starting (Args ! 1)), CallStart the_client (Scheme u) (Host u),
       CallDescribe u, Log (DescribeError e)], Exited)"
  using assms by (simp add: main_part_000_def Let_def)

lemma main_part_000_described:
  assumes "2 \<le> length Args" and "ParseURL env (Args ! 1) = Inr u"
    and "Start env the_client (Scheme u) (Host u) = None"
    and "Describe env u = Inr desc"
  shows "main_part_000 env Args =
     ([Log (Starting (Args ! 1)), CallStart the_client (Scheme u) (Host u), CallDescribe u]
        @ desc_events env desc @ [CallClose], Returned)"
  using assms by (simp add: main_part_000_def Let_def desc_events_def split: sum.splits)

lemma deliver_no_CallStart: "CallStart c s h \<notin> set (deliver env [] ds)"
  using deliver_pkt_events [of env ds] by (auto simp: list_all_iff)



text \<open>The callback's map and its serialization by encoding/json.\<close>

lemma packetInfo_keys_sorted:
  "sorted_list_of_set (dom (packetInfo pkt)) =
     [''csrc'', ''extension'', ''extension_profile'', ''extensions'', ''marker'',
      ''padding'', ''payload_type'', ''sequence_number'', ''ssrc'', ''timestamp'',
      ''version'']"
proof -
  let ?ks = "[''csrc'', ''extension'', ''extension_profile'', ''extensions'', ''marker'',
      ''padding'', ''payload_type'', ''sequence_number'', ''ssrc'', ''timestamp'',
      ''version'']"
  have d: "dom (packetInfo pkt) = set ?ks"
    by (auto simp: packetInfo_def)
  have s: "sorted ?ks" by simp
  have i: "distinct ?ks" by simp
  show ?thesis
    unfolding d using s i by (rule sorted_list_of_set.idem_if_sorted_distinct)
qed

lemma marshal_map_packetInfo:
  "marshal_map (packetInfo pkt) =
     JObject
      [(''csrc'', encode (JUint32s (CSRC pkt))),
       (''extension'', JBoolean (Extension pkt)),
       (''extension_profile'', JNumber (unat (ExtensionProfile pkt))),
       (''extensions'', encode (JExtensions (Extensions pkt))),
       (''marker'', JBoolean (Marker pkt)),
       (''padding'', JBoolean (Padding pkt)),
       (''payload_type'', JNumber (unat (PayloadType pkt))),
       (''sequence_number'', JNumber (unat (SequenceNumber pkt))),
       (''ssrc'', JNumber (unat (SSRC pkt))),
       (''timestamp'', JNumber (unat (Timestamp pkt))),
       (''version'', JNumber (unat (Version pkt)))]"
  unfolding marshal_map_def packetInfo_keys_sorted
  by (simp add: packetInfo_def)

lemma packet_object_text:
  "json_text ''  '' 0 (JObject
      [(''csrc'', c), (''extension'', JBoolean x), (''extension_profile'', JNumber xp),
       (''extensions'', es), (''marker'', JBoolean m), (''padding'', JBoolean p),
       (''payload_type'', JNumber pt), (''sequence_number'', JNumber sn),
       (''ssrc'', JNumber ss), (''timestamp'', JNumber ts), (''version'', JNumber v)]) =
   ''{'' @ [nl]
    @ ''  '' @ [dq] @ ''csrc'' @ [dq] @ '': '' @ json_text ''  '' 1 c @ '','' @ [nl]
    @ ''  '' @ [dq] @ ''extension'' @ [dq] @ '': '' @ (if x then ''true'' else ''false'') @ '','' @ [nl]
    @ ''  '' @ [dq] @ ''extension_profile'' @ [dq] @ '': '' @ decimal xp @ '','' @ [nl]
    @ ''  '' @ [dq] @ ''extensions'' @ [dq] @ '': '' @ json_text ''  '' 1 es @ '','' @ [nl]
    @ ''  '' @ [dq] @ ''marker'' @ [dq] @ '': '' @ (if m then ''true'' else ''false'') @ '','' @ [nl]
    @ ''  '' @ [dq] @ ''padding'' @ [dq] @ '': '' @ (if p then ''true'' else ''false'') @ '','' @ [nl]
    @ ''  '' @ [dq] @ ''payload_type'' @ [dq] @ '': '' @ decimal pt @ '','' @ [nl]
    @ ''  '' @ [dq] @ ''sequence_number'' @ [dq] @ '': '' @ decimal sn @ '','' @ [nl]
    @ ''  '' @ [dq] @ ''ssrc'' @ [dq] @ '': '' @ decimal ss @ '','' @ [nl]
    @ ''  '' @ [dq] @ ''timestamp'' @ [dq] @ '': '' @ decimal ts @ '','' @ [nl]
    @ ''  '' @ [dq] @ ''version'' @ [dq] @ '': '' @ decimal v @ [nl]
    @ ''}''"
  by (simp add: indent_at_def)


lemma packetInfo_entries:
  "dom (packetInfo pkt) =
     {''version'', ''sequence_number'', ''timestamp'', ''extension'', ''padding'',
      ''marker'', ''payload_type'', ''ssrc'', ''csrc'', ''extensions'',
      ''extension_profile''}
   \<and> card (dom (packetInfo pkt)) = 11
   \<and> packetInfo pkt ''version'' = Some (JUint8 (Version pkt))
   \<and> packetInfo pkt ''sequence_number'' = Some (JUint16 (SequenceNumber pkt))
   \<and> packetInfo pkt ''timestamp'' = Some (JUint32 (Timestamp pkt))
   \<and> packetInfo pkt ''extension'' = Some (JBool (Extension pkt))
   \<and> packetInfo pkt ''padding'' = Some (JBool (Padding pkt))
   \<and> packetInfo pkt ''marker'' = Some (JBool (Marker pkt))
   \<and> packetInfo pkt ''payload_type'' = Some (JUint8 (PayloadType pkt))
   \<and> packetInfo pkt ''ssrc'' = Some (JUint32 (SSRC pkt))
   \<and> packetInfo pkt ''csrc'' = Some (JUint32s (CSRC pkt))
   \<and> packetInfo pkt ''extensions'' = Some (JExtensions (Extensions pkt))
   \<and> packetInfo pkt ''extension_profile'' = Some (JUint16 (ExtensionProfile pkt))
   \<and> onPacketRTP env (medi, forma, pkt) t =
       t @ (case MarshalIndentPkt env (packetInfo pkt) of
              Inl e \<Rightarrow> [Log (PktMarshalError e)]
            | Inr packetJSON \<Rightarrow> [Log PktHeader, Log (PktJSON packetJSON)])"
proof -
  have d: "dom (packetInfo pkt) =
     {''version'', ''sequence_number'', ''timestamp'', ''extension'', ''padding'',
      ''marker'', ''payload_type'', ''ssrc'', ''csrc'', ''extensions'',
      ''extension_profile''}"
    by (auto simp: packetInfo_def)
  have c: "card {''version'', ''sequence_number'', ''timestamp'', ''extension'', ''padding'',
      ''marker'', ''payload_type'', ''ssrc'', ''csrc'', ''extensions'',
      ''extension_profile''} = 11"
    by simp
  have v: "packetInfo pkt ''version'' = Some (JUint8 (Version pkt))"
    "packetInfo pkt ''sequence_number'' = Some (JUint16 (SequenceNumber pkt))"
    "packetInfo pkt ''timestamp'' = Some (JUint32 (Timestamp pkt))"
    "packetInfo pkt ''extension'' = Some (JBool (Extension pkt))"
    "packetInfo pkt ''padding'' = Some (JBool (Padding pkt))"
    "packetInfo pkt ''marker'' = Some (JBool (Marker pkt))"
    "packetInfo pkt ''payload_type'' = Some (JUint8 (PayloadType pkt))"
    "packetInfo pkt ''ssrc'' = Some (JUint32 (SSRC pkt))"
    "packetInfo pkt ''csrc'' = Some (JUint32s (CSRC pkt))"
    "packetInfo pkt ''extensions'' = Some (JExtensions (Extensions pkt))"
    "packetInfo pkt ''extension_profile'' = Some (JUint16 (ExtensionProfile pkt))"
    by (simp_all add: packetInfo_def)
  have o: "onPacketRTP env (medi, forma, pkt) t =
       t @ (case MarshalIndentPkt env (packetInfo pkt) of
              Inl e \<Rightarrow> [Log (PktMarshalError e)]
            | Inr packetJSON \<Rightarrow> [Log PktHeader, Log (PktJSON packetJSON)])"
    by (simp split: sum.splits)
  show ?thesis
    unfolding d c using v o by blast
qed

section \<open>The claims\<close>

subsection \<open>C1: a failed Describe\<close>

text \<open>
  Claim C1 says that a failed Describe, after a successful Connect, is logged and the
  program goes on to Setup and Play. The source calls \<^verbatim>\<open>log.Fatalf\<close> at that point
  (main.go, line 65), so the claim fails. What holds instead: when the arguments and the
  URL are accepted, Connect succeeds and Describe fails, the program logs the Describe
  error and exits; the run consists of the start line, the Connect call, the Describe
  call and the error line, and contains no Setup call, no callback registration and no
  Play call.
\<close>

theorem describe_failure_is_fatal:
  assumes "2 \<le> length Args" and "ParseURL env (Args ! 1) = Inr u"
    and "Start env the_client (Scheme u) (Host u) = None"
    and "Describe env u = Inl e"
  shows "main env Args =
           ([Log (Starting (Args ! 1)), CallStart the_client (Scheme u) (Host u),
             CallDescribe u, Log (DescribeError e)], Exited)
         \<and> \<not> list_ex is_CallSetupAll (fst (main env Args))
         \<and> CallOnPacketRTPAny \<notin> set (fst (main env Args))
         \<and> CallPlay \<notin> set (fst (main env Args))"
  using main_describe_failed [OF assms] by simp

theorem describe_failure_is_fatal_witness:
  "2 \<le> length args0
   \<and> ParseURL env_describe_fails (args0 ! 1) = Inr url0
   \<and> Start env_describe_fails the_client (Scheme url0) (Host url0) = None
   \<and> Describe env_describe_fails url0 = Inl ''bad status code: 404''
   \<and> main env_describe_fails args0 =
       ([Log (Starting ''rtsp://localhost:8554/mystream''),
         CallStart the_client ''rtsp'' ''localhost:8554'',
         CallDescribe url0, Log (DescribeError ''bad status code: 404'')], Exited)"
proof -
  have h1: "2 \<le> length args0" by (simp add: args0_def)
  have h2: "ParseURL env_describe_fails (args0 ! 1) = Inr url0" by (simp add: example_defs)
  have h3: "Start env_describe_fails the_client (Scheme url0) (Host url0) = None"
    by (simp add: example_defs)
  have h4: "Describe env_describe_fails url0 = Inl ''bad status code: 404''"
    by (simp add: example_defs)
  have "args0 ! 1 = ''rtsp://localhost:8554/mystream''" by (simp add: args0_def)
  moreover have "Scheme url0 = ''rtsp''" and "Host url0 = ''localhost:8554''"
    by (simp_all add: url0_def)
  ultimately show ?thesis
    using describe_failure_is_fatal [OF h1 h2 h3 h4] h1 h2 h3 h4 by simp
qed

text \<open>
  The run that refutes C1 as stated: the URL parses, Connect succeeds, the server answers
  Describe with an error, and the program exits without a Setup or a Play call.
\<close>

theorem describe_failure_nonfatal_counterexample:
  "ParseURL env_describe_fails (args0 ! 1) = Inr url0
   \<and> Start env_describe_fails the_client (Scheme url0) (Host url0) = None
   \<and> Describe env_describe_fails url0 = Inl ''bad status code: 404''
   \<and> snd (main env_describe_fails args0) = Exited
   \<and> \<not> list_ex is_CallSetupAll (fst (main env_describe_fails args0))
   \<and> CallPlay \<notin> set (fst (main env_describe_fails args0))"
  by (simp add: example_defs main_def Let_def)

subsection \<open>C2: the fields of a packet block\<close>

text \<open>
  Claim C2: for every packet handed to the callback, the map that is serialized has
  exactly the eleven keys version, sequence\_number, timestamp, extension, padding,
  marker, payload\_type, ssrc, csrc, extensions and extension\_profile, each bound to the
  header field of that packet, and the callback logs the serialization of that map.
  With the serializer behaving as encoding/json documents, the emitted block is the
  indented text of a JSON object with exactly these eleven members, in the sorted order
  of their names, one on each line between the braces, and the value of each member is
  the text of the corresponding header field of the packet.
\<close>

theorem packet_block_fields:
  "dom (packetInfo pkt) =
     {''version'', ''sequence_number'', ''timestamp'', ''extension'', ''padding'',
      ''marker'', ''payload_type'', ''ssrc'', ''csrc'', ''extensions'',
      ''extension_profile''}
   \<and> card (dom (packetInfo pkt)) = 11
   \<and> packetInfo pkt ''version'' = Some (JUint8 (Version pkt))
   \<and> packetInfo pkt ''sequence_number'' = Some (JUint16 (SequenceNumber pkt))
   \<and> packetInfo pkt ''timestamp'' = Some (JUint32 (Timestamp pkt))
   \<and> packetInfo pkt ''extension'' = Some (JBool (Extension pkt))
   \<and> packetInfo pkt ''padding'' = Some (JBool (Padding pkt))
   \<and> packetInfo pkt ''marker'' = Some (JBool (Marker pkt))
   \<and> packetInfo pkt ''payload_type'' = Some (JUint8 (PayloadType pkt))
   \<and> packetInfo pkt ''ssrc'' = Some (JUint32 (SSRC pkt))
   \<and> packetInfo pkt ''csrc'' = Some (JUint32s (CSRC pkt))
   \<and> packetInfo pkt ''extensions'' = Some (JExtensions (Extensions pkt))
   \<and> packetInfo pkt ''extension_profile'' = Some (JUint16 (ExtensionProfile pkt))
   \<and> onPacketRTP env (medi, forma, pkt) t =
       t @ (case MarshalIndentPkt env (packetInfo pkt) of
              Inl e \<Rightarrow> [Log (PktMarshalError e)]
            | Inr packetJSON \<Rightarrow> [Log PktHeader, Log (PktJSON packetJSON)])
   \<and> (MarshalIndentPkt env (packetInfo pkt) = json_MarshalIndent ''  '' (packetInfo pkt) \<longrightarrow>
        onPacketRTP env (medi, forma, pkt) t =
          t @ [Log PktHeader, Log (PktJSON (json_text ''  '' 0 (JObject
      [(''csrc'', encode (JUint32s (CSRC pkt))),
       (''extension'', JBoolean (Extension pkt)),
       (''extension_profile'', JNumber (unat (ExtensionProfile pkt))),
       (''extensions'', encode (JExtensions (Extensions pkt))),
       (''marker'', JBoolean (Marker pkt)),
       (''padding'', JBoolean (Padding pkt)),
       (''payload_type'', JNumber (unat (PayloadType pkt))),
       (''sequence_number'', JNumber (unat (SequenceNumber pkt))),
       (''ssrc'', JNumber (unat (SSRC pkt))),
       (''timestamp'', JNumber (unat (Timestamp pkt))),
       (''version'', JNumber (unat (Version pkt)))])))]
        \<and> json_text ''  '' 0 (JObject
      [(''csrc'', encode (JUint32s (CSRC pkt))),
       (''extension'', JBoolean (Extension pkt)),
       (''extension_profile'', JNumber (unat (ExtensionProfile pkt))),
       (''extensions'', encode (JExtensions (Extensions pkt))),
       (''marker'', JBoolean (Marker pkt)),
       (''padding'', JBoolean (Padding pkt)),
       (''payload_type'', JNumber (unat (PayloadType pkt))),
       (''sequence_number'', JNumber (unat (SequenceNumber pkt))),
       (''ssrc'', JNumber (unat (SSRC pkt))),
       (''timestamp'', JNumber (unat (Timestamp pkt))),
       (''version'', JNumber (unat (Version pkt)))]) =
   ''{'' @ [nl]
    @ ''  '' @ [dq] @ ''csrc'' @ [dq] @ '': ''
        @ json_text ''  '' 1 (encode (JUint32s (CSRC pkt))) @ '','' @ [nl]
    @ ''  '' @ [dq] @ ''extension'' @ [dq] @ '': ''
        @ (if Extension pkt then ''true'' else ''false'') @ '','' @ [nl]
    @ ''  '' @ [dq] @ ''extension_profile'' @ [dq] @ '': ''
        @ decimal (unat (ExtensionProfile pkt)) @ '','' @ [nl]
    @ ''  '' @ [dq] @ ''extensions'' @ [dq] @ '': ''
        @ json_text ''  '' 1 (encode (JExtensions (Extensions pkt))) @ '','' @ [nl]
    @ ''  '' @ [dq] @ ''marker'' @ [dq] @ '': ''
        @ (if Marker pkt then ''true'' else ''false'') @ '','' @ [nl]
    @ ''  '' @ [dq] @ ''padding'' @ [dq] @ '': ''
        @ (if Padding pkt then ''true'' else ''false'') @ '','' @ [nl]
    @ ''  '' @ [dq] @ ''payload_type'' @ [dq] @ '': ''
        @ decimal (unat (PayloadType pkt)) @ '','' @ [nl]
    @ ''  '' @ [dq] @ ''sequence_number'' @ [dq] @ '': ''
        @ decimal (unat (SequenceNumber pkt)) @ '','' @ [nl]
    @ ''  '' @ [dq] @ ''ssrc'' @ [dq] @ '': ''
        @ decimal (unat (SSRC pkt)) @ '','' @ [nl]
    @ ''  '' @ [dq] @ ''timestamp'' @ [dq] @ '': ''
        @ decimal (unat (Timestamp pkt)) @ '','' @ [nl]
    @ ''  '' @ [dq] @ ''version'' @ [dq] @ '': ''
        @ decimal (unat (Version pkt)) @ [nl]
    @ ''}'')"
proof -
  have old: "dom (packetInfo pkt) =
     {''version'', ''sequence_number'', ''timestamp'', ''extension'', ''padding'',
      ''marker'', ''payload_type'', ''ssrc'', ''csrc'', ''extensions'',
      ''extension_profile''}
   \<and> card (dom (packetInfo pkt)) = 11
   \<and> packetInfo pkt ''version'' = Some (JUint8 (Version pkt))
   \<and> packetInfo pkt ''sequence_number'' = Some (JUint16 (SequenceNumber pkt))
   \<and> packetInfo pkt ''timestamp'' = Some (JUint32 (Timestamp pkt))
   \<and> packetInfo pkt ''extension'' = Some (JBool (Extension pkt))
   \<and> packetInfo pkt ''padding'' = Some (JBool (Padding pkt))
   \<and> packetInfo pkt ''marker'' = Some (JBool (Marker pkt))
   \<and> packetInfo pkt ''payload_type'' = Some (JUint8 (PayloadType pkt))
   \<and> packetInfo pkt ''ssrc'' = Some (JUint32 (SSRC pkt))
   \<and> packetInfo pkt ''csrc'' = Some (JUint32s (CSRC pkt))
   \<and> packetInfo pkt ''extensions'' = Some (JExtensions (Extensions pkt))
   \<and> packetInfo pkt ''extension_profile'' = Some (JUint16 (ExtensionProfile pkt))
   \<and> onPacketRTP env (medi, forma, pkt) t =
       t @ (case MarshalIndentPkt env (packetInfo pkt) of
              Inl e \<Rightarrow> [Log (PktMarshalError e)]
            | Inr packetJSON \<Rightarrow> [Log PktHeader, Log (PktJSON packetJSON)])"
    by (rule packetInfo_entries)
  have new: "MarshalIndentPkt env (packetInfo pkt) = json_MarshalIndent ''  '' (packetInfo pkt) \<longrightarrow>
        onPacketRTP env (medi, forma, pkt) t =
          t @ [Log PktHeader, Log (PktJSON (json_text ''  '' 0 (JObject
      [(''csrc'', encode (JUint32s (CSRC pkt))),
       (''extension'', JBoolean (Extension pkt)),
       (''extension_profile'', JNumber (unat (ExtensionProfile pkt))),
       (''extensions'', encode (JExtensions (Extensions pkt))),
       (''marker'', JBoolean (Marker pkt)),
       (''padding'', JBoolean (Padding pkt)),
       (''payload_type'', JNumber (unat (PayloadType pkt))),
       (''sequence_number'', JNumber (unat (SequenceNumber pkt))),
       (''ssrc'', JNumber (unat (SSRC pkt))),
       (''timestamp'', JNumber (unat (Timestamp pkt))),
       (''version'', JNumber (unat (Version pkt)))])))]
        \<and> json_text ''  '' 0 (JObject
      [(''csrc'', encode (JUint32s (CSRC pkt))),
       (''extension'', JBoolean (Extension pkt)),
       (''extension_profile'', JNumber (unat (ExtensionProfile pkt))),
       (''extensions'', encode (JExtensions (Extensions pkt))),
       (''marker'', JBoolean (Marker pkt)),
       (''padding'', JBoolean (Padding pkt)),
       (''payload_type'', JNumber (unat (PayloadType pkt))),
       (''sequence_number'', JNumber (unat (SequenceNumber pkt))),
       (''ssrc'', JNumber (unat (SSRC pkt))),
       (''timestamp'', JNumber (unat (Timestamp pkt))),
       (''version'', JNumber (unat (Version pkt)))]) =
   ''{'' @ [nl]
    @ ''  '' @ [dq] @ ''csrc'' @ [dq] @ '': ''
        @ json_text ''  '' 1 (encode (JUint32s (CSRC pkt))) @ '','' @ [nl]
    @ ''  '' @ [dq] @ ''extension'' @ [dq] @ '': ''
        @ (if Extension pkt then ''true'' else ''false'') @ '','' @ [nl]
    @ ''  '' @ [dq] @ ''extension_profile'' @ [dq] @ '': ''
        @ decimal (unat (ExtensionProfile pkt)) @ '','' @ [nl]
    @ ''  '' @ [dq] @ ''extensions'' @ [dq] @ '': ''
        @ json_text ''  '' 1 (encode (JExtensions (Extensions pkt))) @ '','' @ [nl]
    @ ''  '' @ [dq] @ ''marker'' @ [dq] @ '': ''
        @ (if Marker pkt then ''true'' else ''false'') @ '','' @ [nl]
    @ ''  '' @ [dq] @ ''padding'' @ [dq] @ '': ''
        @ (if Padding pkt then ''true'' else ''false'') @ '','' @ [nl]
    @ ''  '' @ [dq] @ ''payload_type'' @ [dq] @ '': ''
        @ decimal (unat (PayloadType pkt)) @ '','' @ [nl]
    @ ''  '' @ [dq] @ ''sequence_number'' @ [dq] @ '': ''
        @ decimal (unat (SequenceNumber pkt)) @ '','' @ [nl]
    @ ''  '' @ [dq] @ ''ssrc'' @ [dq] @ '': ''
        @ decimal (unat (SSRC pkt)) @ '','' @ [nl]
    @ ''  '' @ [dq] @ ''timestamp'' @ [dq] @ '': ''
        @ decimal (unat (Timestamp pkt)) @ '','' @ [nl]
    @ ''  '' @ [dq] @ ''version'' @ [dq] @ '': ''
        @ decimal (unat (Version pkt)) @ [nl]
    @ ''}''"
  proof (intro impI conjI)
    assume "MarshalIndentPkt env (packetInfo pkt) = json_MarshalIndent ''  '' (packetInfo pkt)"
    then show "onPacketRTP env (medi, forma, pkt) t =
          t @ [Log PktHeader, Log (PktJSON (json_text ''  '' 0 (JObject
      [(''csrc'', encode (JUint32s (CSRC pkt))),
       (''extension'', JBoolean (Extension pkt)),
       (''extension_profile'', JNumber (unat (ExtensionProfile pkt))),
       (''extensions'', encode (JExtensions (Extensions pkt))),
       (''marker'', JBoolean (Marker pkt)),
       (''padding'', JBoolean (Padding pkt)),
       (''payload_type'', JNumber (unat (PayloadType pkt))),
       (''sequence_number'', JNumber (unat (SequenceNumber pkt))),
       (''ssrc'', JNumber (unat (SSRC pkt))),
       (''timestamp'', JNumber (unat (Timestamp pkt))),
       (''version'', JNumber (unat (Version pkt)))])))]"
      by (simp add: json_MarshalIndent_def marshal_map_packetInfo)
  next
    show "json_text ''  '' 0 (JObject
      [(''csrc'', encode (JUint32s (CSRC pkt))),
       (''extension'', JBoolean (Extension pkt)),
       (''extension_profile'', JNumber (unat (ExtensionProfile pkt))),
       (''extensions'', encode (JExtensions (Extensions pkt))),
       (''marker'', JBoolean (Marker pkt)),
       (''padding'', JBoolean (Padding pkt)),
       (''payload_type'', JNumber (unat (PayloadType pkt))),
       (''sequence_number'', JNumber (unat (SequenceNumber pkt))),
       (''ssrc'', JNumber (unat (SSRC pkt))),
       (''timestamp'', JNumber (unat (Timestamp pkt))),
       (''version'', JNumber (unat (Version pkt)))]) =
   ''{'' @ [nl]
    @ ''  '' @ [dq] @ ''csrc'' @ [dq] @ '': ''
        @ json_text ''  '' 1 (encode (JUint32s (CSRC pkt))) @ '','' @ [nl]
    @ ''  '' @ [dq] @ ''extension'' @ [dq] @ '': ''
        @ (if Extension pkt then ''true'' else ''false'') @ '','' @ [nl]
    @ ''  '' @ [dq] @ ''extension_profile'' @ [dq] @ '': ''
        @ decimal (unat (ExtensionProfile pkt)) @ '','' @ [nl]
    @ ''  '' @ [dq] @ ''extensions'' @ [dq] @ '': ''
        @ json_text ''  '' 1 (encode (JExtensions (Extensions pkt))) @ '','' @ [nl]
    @ ''  '' @ [dq] @ ''marker'' @ [dq] @ '': ''
        @ (if Marker pkt then ''true'' else ''false'') @ '','' @ [nl]
    @ ''  '' @ [dq] @ ''padding'' @ [dq] @ '': ''
        @ (if Padding pkt then ''true'' else ''false'') @ '','' @ [nl]
    @ ''  '' @ [dq] @ ''payload_type'' @ [dq] @ '': ''
        @ decimal (unat (PayloadType pkt)) @ '','' @ [nl]
    @ ''  '' @ [dq] @ ''sequence_number'' @ [dq] @ '': ''
        @ decimal (unat (SequenceNumber pkt)) @ '','' @ [nl]
    @ ''  '' @ [dq] @ ''ssrc'' @ [dq] @ '': ''
        @ decimal (unat (SSRC pkt)) @ '','' @ [nl]
    @ ''  '' @ [dq] @ ''timestamp'' @ [dq] @ '': ''
        @ decimal (unat (Timestamp pkt)) @ '','' @ [nl]
    @ ''  '' @ [dq] @ ''version'' @ [dq] @ '': ''
        @ decimal (unat (Version pkt)) @ [nl]
    @ ''}''"
      by (rule packet_object_text)
  qed
  show ?thesis
    using old new by (elim conjE) (intro conjI; assumption)
qed

theorem packet_block_fields_witness:
  "MarshalIndentPkt env_json (packetInfo pkt0) = json_MarshalIndent ''  '' (packetInfo pkt0)
   \<and> onPacketRTP env_json (video0, ''H264'', pkt0) [] =
       [Log PktHeader,
        Log (PktJSON (''{'' @ [nl]
          @ ''  '' @ [dq] @ ''csrc'' @ [dq] @ '': [],'' @ [nl]
          @ ''  '' @ [dq] @ ''extension'' @ [dq] @ '': false,'' @ [nl]
          @ ''  '' @ [dq] @ ''extension_profile'' @ [dq] @ '': 0,'' @ [nl]
          @ ''  '' @ [dq] @ ''extensions'' @ [dq] @ '': null,'' @ [nl]
          @ ''  '' @ [dq] @ ''marker'' @ [dq] @ '': true,'' @ [nl]
          @ ''  '' @ [dq] @ ''padding'' @ [dq] @ '': false,'' @ [nl]
          @ ''  '' @ [dq] @ ''payload_type'' @ [dq] @ '': 96,'' @ [nl]
          @ ''  '' @ [dq] @ ''sequence_number'' @ [dq] @ '': 1000,'' @ [nl]
          @ ''  '' @ [dq] @ ''ssrc'' @ [dq] @ '': 11,'' @ [nl]
          @ ''  '' @ [dq] @ ''timestamp'' @ [dq] @ '': 90000,'' @ [nl]
          @ ''  '' @ [dq] @ ''version'' @ [dq] @ '': 2'' @ [nl]
          @ ''}''))]"
proof -
  have h: "MarshalIndentPkt env_json (packetInfo pkt0)
             = json_MarshalIndent ''  '' (packetInfo pkt0)"
    by (simp add: env_json_def)
  have t: "MarshalIndentPkt env_json (packetInfo pkt0)
             = json_MarshalIndent ''  '' (packetInfo pkt0) \<longrightarrow>
        onPacketRTP env_json (video0, ''H264'', pkt0) [] =
          [] @ [Log PktHeader, Log (PktJSON (json_text ''  '' 0 (JObject
      [(''csrc'', encode (JUint32s (CSRC pkt0))),
       (''extension'', JBoolean (Extension pkt0)),
       (''extension_profile'', JNumber (unat (ExtensionProfile pkt0))),
       (''extensions'', encode (JExtensions (Extensions pkt0))),
       (''marker'', JBoolean (Marker pkt0)),
       (''padding'', JBoolean (Padding pkt0)),
       (''payload_type'', JNumber (unat (PayloadType pkt0))),
       (''sequence_number'', JNumber (unat (SequenceNumber pkt0))),
       (''ssrc'', JNumber (unat (SSRC pkt0))),
       (''timestamp'', JNumber (unat (Timestamp pkt0))),
       (''version'', JNumber (unat (Version pkt0)))])))]
        \<and> json_text ''  '' 0 (JObject
      [(''csrc'', encode (JUint32s (CSRC pkt0))),
       (''extension'', JBoolean (Extension pkt0)),
       (''extension_profile'', JNumber (unat (ExtensionProfile pkt0))),
       (''extensions'', encode (JExtensions (Extensions pkt0))),
       (''marker'', JBoolean (Marker pkt0)),
       (''padding'', JBoolean (Padding pkt0)),
       (''payload_type'', JNumber (unat (PayloadType pkt0))),
       (''sequence_number'', JNumber (unat (SequenceNumber pkt0))),
       (''ssrc'', JNumber (unat (SSRC pkt0))),
       (''timestamp'', JNumber (unat (Timestamp pkt0))),
       (''version'', JNumber (unat (Version pkt0)))]) =
   ''{'' @ [nl]
    @ ''  '' @ [dq] @ ''csrc'' @ [dq] @ '': ''
        @ json_text ''  '' 1 (encode (JUint32s (CSRC pkt0))) @ '','' @ [nl]
    @ ''  '' @ [dq] @ ''extension'' @ [dq] @ '': ''
        @ (if Extension pkt0 then ''true'' else ''false'') @ '','' @ [nl]
    @ ''  '' @ [dq] @ ''extension_profile'' @ [dq] @ '': ''
        @ decimal (unat (ExtensionProfile pkt0)) @ '','' @ [nl]
    @ ''  '' @ [dq] @ ''extensions'' @ [dq] @ '': ''
        @ json_text ''  '' 1 (encode (JExtensions (Extensions pkt0))) @ '','' @ [nl]
    @ ''  '' @ [dq] @ ''marker'' @ [dq] @ '': ''
        @ (if Marker pkt0 then ''true'' else ''false'') @ '','' @ [nl]
    @ ''  '' @ [dq] @ ''padding'' @ [dq] @ '': ''
        @ (if Padding pkt0 then ''true'' else ''false'') @ '','' @ [nl]
    @ ''  '' @ [dq] @ ''payload_type'' @ [dq] @ '': ''
        @ decimal (unat (PayloadType pkt0)) @ '','' @ [nl]
    @ ''  '' @ [dq] @ ''sequence_number'' @ [dq] @ '': ''
        @ decimal (unat (SequenceNumber pkt0)) @ '','' @ [nl]
    @ ''  '' @ [dq] @ ''ssrc'' @ [dq] @ '': ''
        @ decimal (unat (SSRC pkt0)) @ '','' @ [nl]
    @ ''  '' @ [dq] @ ''timestamp'' @ [dq] @ '': ''
        @ decimal (unat (Timestamp pkt0)) @ '','' @ [nl]
    @ ''  '' @ [dq] @ ''version'' @ [dq] @ '': ''
        @ decimal (unat (Version pkt0)) @ [nl]
    @ ''}''"
    using packet_block_fields [of pkt0 env_json video0 "''H264''" "[]"]
    by (elim conjE) assumption
  have a: "onPacketRTP env_json (video0, ''H264'', pkt0) [] =
          [Log PktHeader, Log (PktJSON (''{'' @ [nl]
    @ ''  '' @ [dq] @ ''csrc'' @ [dq] @ '': ''
        @ json_text ''  '' 1 (encode (JUint32s (CSRC pkt0))) @ '','' @ [nl]
    @ ''  '' @ [dq] @ ''extension'' @ [dq] @ '': ''
        @ (if Extension pkt0 then ''true'' else ''false'') @ '','' @ [nl]
    @ ''  '' @ [dq] @ ''extension_profile'' @ [dq] @ '': ''
        @ decimal (unat (ExtensionProfile pkt0)) @ '','' @ [nl]
    @ ''  '' @ [dq] @ ''extensions'' @ [dq] @ '': ''
        @ json_text ''  '' 1 (encode (JExtensions (Extensions pkt0))) @ '','' @ [nl]
    @ ''  '' @ [dq] @ ''marker'' @ [dq] @ '': ''
        @ (if Marker pkt0 then ''true'' else ''false'') @ '','' @ [nl]
    @ ''  '' @ [dq] @ ''padding'' @ [dq] @ '': ''
        @ (if Padding pkt0 then ''true'' else ''false'') @ '','' @ [nl]
    @ ''  '' @ [dq] @ ''payload_type'' @ [dq] @ '': ''
        @ decimal (unat (PayloadType pkt0)) @ '','' @ [nl]
    @ ''  '' @ [dq] @ ''sequence_number'' @ [dq] @ '': ''
        @ decimal (unat (SequenceNumber pkt0)) @ '','' @ [nl]
    @ ''  '' @ [dq] @ ''ssrc'' @ [dq] @ '': ''
        @ decimal (unat (SSRC pkt0)) @ '','' @ [nl]
    @ ''  '' @ [dq] @ ''timestamp'' @ [dq] @ '': ''
        @ decimal (unat (Timestamp pkt0)) @ '','' @ [nl]
    @ ''  '' @ [dq] @ ''version'' @ [dq] @ '': ''
        @ decimal (unat (Version pkt0)) @ [nl]
    @ ''}''))]"
    using t h by simp
  have n: "decimal 0 = ''0''" "decimal 96 = ''96''" "decimal 1000 = ''1000''"
    "decimal 11 = ''11''" "decimal 90000 = ''90000''" "decimal 2 = ''2''"
    by (simp_all add: decimal.simps)
  have f: "CSRC pkt0 = Some []" "Extension pkt0 = False" "unat (ExtensionProfile pkt0) = 0"
    "Extensions pkt0 = None" "Marker pkt0 = True" "Padding pkt0 = False"
    "unat (PayloadType pkt0) = 96" "unat (SequenceNumber pkt0) = 1000"
    "unat (SSRC pkt0) = 11" "unat (Timestamp pkt0) = 90000" "unat (Version pkt0) = 2"
    by (simp_all add: pkt0_def)
  show ?thesis
    unfolding a f n using h by simp
qed

subsection \<open>C3: one description block, before the packets; one callback\<close>




subsection \<open>C4: no argument, or a malformed URL\<close>

text \<open>
  Claim C4: when the program is started with no command-line argument (the argument
  vector holds the program name only), or with an argument that the URL parser rejects,
  it exits with failure after a single log line, the usage message or the parse error:
  the run contains no library call (no Connect, Describe, Setup or Play), no
  session-description block and no packet output.
\<close>

theorem bad_invocation_no_network:
  assumes "length Args = 1 \<or> (2 \<le> length Args \<and> (\<exists>e. ParseURL env (Args ! 1) = Inl e))"
  shows "snd (main env Args) = Exited
         \<and> ((\<exists>a0. Args = [a0] \<and> fst (main env Args) = [Log (Usage a0)])
            \<or> (\<exists>e. 2 \<le> length Args \<and> ParseURL env (Args ! 1) = Inl e
                  \<and> fst (main env Args) = [Log (CannotParse e)]))
         \<and> list_all is_Log (fst (main env Args))
         \<and> \<not> list_ex is_DescJSON (fst (main env Args))
         \<and> \<not> list_ex is_pkt_event (fst (main env Args))"
  using assms
proof
  assume "length Args = 1"
  then obtain a0 where a: "Args = [a0]"
    by (cases Args) simp_all
  show ?thesis
    unfolding a main_usage by simp
next
  assume "2 \<le> length Args \<and> (\<exists>e. ParseURL env (Args ! 1) = Inl e)"
  then obtain e where l: "2 \<le> length Args" and p: "ParseURL env (Args ! 1) = Inl e"
    by blast
  show ?thesis
    using main_bad_url [OF l p] l p by simp
qed

theorem bad_invocation_no_network_witness:
  "length [''rtsp-client''] = 1
   \<and> main env_ok [''rtsp-client''] = ([Log (Usage ''rtsp-client'')], Exited)
   \<and> 2 \<le> length [''rtsp-client'', ''localhost:8554'']
   \<and> ParseURL env_ok ([''rtsp-client'', ''localhost:8554''] ! 1) = Inl ''invalid URL''
   \<and> main env_ok [''rtsp-client'', ''localhost:8554''] =
       ([Log (CannotParse ''invalid URL'')], Exited)"
proof -
  have h1: "length [''rtsp-client''] = 1 \<or> (2 \<le> length [''rtsp-client'']
      \<and> (\<exists>e. ParseURL env_ok ([''rtsp-client''] ! 1) = Inl e))"
    by simp
  have p: "ParseURL env_ok ([''rtsp-client'', ''localhost:8554''] ! 1) = Inl ''invalid URL''"
    by (simp add: env_ok_def)
  then have h2: "length [''rtsp-client'', ''localhost:8554''] = 1
      \<or> (2 \<le> length [''rtsp-client'', ''localhost:8554'']
      \<and> (\<exists>e. ParseURL env_ok ([''rtsp-client'', ''localhost:8554''] ! 1) = Inl e))"
    by simp
  have "main env_ok [''rtsp-client''] = ([Log (Usage ''rtsp-client'')], Exited)"
    using bad_invocation_no_network [OF h1] by (auto simp: prod_eq_iff)
  moreover have "main env_ok [''rtsp-client'', ''localhost:8554''] =
       ([Log (CannotParse ''invalid URL'')], Exited)"
    using bad_invocation_no_network [OF h2] p by (auto simp: prod_eq_iff)
  ultimately show ?thesis using p by simp
qed

subsection \<open>C5: a failed Connect\<close>

text \<open>
  Claim C5: when Connect fails, the program logs the connection error and exits at once;
  the run consists of the start line, the Connect call and the error line, so there is
  no Describe, Setup or Play call and no description or packet output.
\<close>

theorem connect_failure_is_fatal:
  assumes "2 \<le> length Args" and "ParseURL env (Args ! 1) = Inr u"
    and "Start env the_client (Scheme u) (Host u) = Some e"
  shows "main env Args =
           ([Log (Starting (Args ! 1)), CallStart the_client (Scheme u) (Host u),
             Log (ConnectError e)], Exited)
         \<and> CallDescribe u \<notin> set (fst (main env Args))
         \<and> \<not> list_ex is_CallSetupAll (fst (main env Args))
         \<and> CallPlay \<notin> set (fst (main env Args))
         \<and> \<not> list_ex is_DescJSON (fst (main env Args))
         \<and> \<not> list_ex is_pkt_event (fst (main env Args))"
  using main_connect_failed [OF assms] by simp

theorem connect_failure_is_fatal_witness:
  "2 \<le> length args0
   \<and> ParseURL env_unreachable (args0 ! 1) = Inr url0
   \<and> Start env_unreachable the_client (Scheme url0) (Host url0) = Some ''connection refused''
   \<and> main env_unreachable args0 =
       ([Log (Starting ''rtsp://localhost:8554/mystream''),
         CallStart the_client ''rtsp'' ''localhost:8554'',
         Log (ConnectError ''connection refused'')], Exited)"
proof -
  have h1: "2 \<le> length args0" by (simp add: args0_def)
  have h2: "ParseURL env_unreachable (args0 ! 1) = Inr url0" by (simp add: example_defs)
  have h3: "Start env_unreachable the_client (Scheme url0) (Host url0)
              = Some ''connection refused''"
    by (simp add: example_defs)
  have "args0 ! 1 = ''rtsp://localhost:8554/mystream''" by (simp add: args0_def)
  moreover have "Scheme url0 = ''rtsp''" and "Host url0 = ''localhost:8554''"
    by (simp_all add: url0_def)
  ultimately show ?thesis
    using connect_failure_is_fatal [OF h1 h2 h3] h1 h2 h3 by simp
qed

subsection \<open>C6: failed Setup, failed Play\<close>

text \<open>
  Claim C6: once Describe has succeeded the run always reaches the waiting state. A
  Setup error is logged and directly followed by the callback registration and the Play
  call; a Play error is logged and followed by the streaming line and the handling of
  the packets that arrive afterwards.
\<close>

theorem setup_and_play_failures_nonfatal:
  assumes "2 \<le> length Args" and "ParseURL env (Args ! 1) = Inr u"
    and "Start env the_client (Scheme u) (Host u) = None"
    and "Describe env u = Inr desc"
  shows "snd (main env Args) = Blocked
         \<and> (\<forall>e. SetupAll env (BaseURL desc) (Medias desc) = Some e \<longrightarrow>
               (\<exists>pre post. fst (main env Args) =
                  pre @ [CallSetupAll (BaseURL desc) (Medias desc), Log (SetupError e),
                         CallOnPacketRTPAny, CallPlay] @ post))
         \<and> (\<forall>e. Play env = Some e \<longrightarrow>
               (\<exists>pre. fst (main env Args) =
                  pre @ [CallPlay] @ deliver env [] (arrivals_in_play env)
                      @ [Log (PlayError e), Log Streaming]
                      @ deliver env [] (arrivals_after env)))"
proof -
  note nf = main_described [OF assms]
  have a: "snd (main env Args) = Blocked"
    by (simp add: nf)
  have b: "\<exists>pre post. fst (main env Args) =
                  pre @ [CallSetupAll (BaseURL desc) (Medias desc), Log (SetupError e),
                         CallOnPacketRTPAny, CallPlay] @ post"
    if "SetupAll env (BaseURL desc) (Medias desc) = Some e" for e
  proof (intro exI)
    show "fst (main env Args) =
        ([Log (Starting (Args ! 1)), CallStart the_client (Scheme u) (Host u), CallDescribe u]
            @ desc_events env desc)
          @ [CallSetupAll (BaseURL desc) (Medias desc), Log (SetupError e),
             CallOnPacketRTPAny, CallPlay]
          @ (deliver env [] (arrivals_in_play env) @ play_events env @ [Log Streaming]
             @ deliver env [] (arrivals_after env))"
      using that by (simp add: nf setup_events_def)
  qed
  have c: "\<exists>pre. fst (main env Args) =
                  pre @ [CallPlay] @ deliver env [] (arrivals_in_play env)
                      @ [Log (PlayError e), Log Streaming]
                      @ deliver env [] (arrivals_after env)"
    if "Play env = Some e" for e
  proof (intro exI)
    show "fst (main env Args) =
        ([Log (Starting (Args ! 1)), CallStart the_client (Scheme u) (Host u), CallDescribe u]
            @ desc_events env desc @ [CallSetupAll (BaseURL desc) (Medias desc)]
            @ setup_events env desc @ [CallOnPacketRTPAny])
          @ [CallPlay] @ deliver env [] (arrivals_in_play env)
          @ [Log (PlayError e), Log Streaming]
          @ deliver env [] (arrivals_after env)"
      using that by (simp add: nf play_events_def)
  qed
  show ?thesis using a b c by blast
qed

theorem setup_and_play_failures_nonfatal_witness:
  "2 \<le> length args0
   \<and> ParseURL env_setup_play_fail (args0 ! 1) = Inr url0
   \<and> Start env_setup_play_fail the_client (Scheme url0) (Host url0) = None
   \<and> Describe env_setup_play_fail url0 = Inr desc0
   \<and> SetupAll env_setup_play_fail (BaseURL desc0) (Medias desc0) = Some ''bad status code: 461''
   \<and> Play env_setup_play_fail = Some ''bad status code: 455''
   \<and> snd (main env_setup_play_fail args0) = Blocked
   \<and> (\<exists>pre post. fst (main env_setup_play_fail args0) =
         pre @ [CallSetupAll (BaseURL desc0) (Medias desc0),
                Log (SetupError ''bad status code: 461''), CallOnPacketRTPAny, CallPlay] @ post)
   \<and> (\<exists>pre. fst (main env_setup_play_fail args0) =
         pre @ [CallPlay] @ deliver env_setup_play_fail [] (arrivals_in_play env_setup_play_fail)
             @ [Log (PlayError ''bad status code: 455''), Log Streaming]
             @ deliver env_setup_play_fail [] (arrivals_after env_setup_play_fail))"
proof -
  have h1: "2 \<le> length args0" by (simp add: args0_def)
  have h2: "ParseURL env_setup_play_fail (args0 ! 1) = Inr url0" by (simp add: example_defs)
  have h3: "Start env_setup_play_fail the_client (Scheme url0) (Host url0) = None"
    by (simp add: example_defs)
  have h4: "Describe env_setup_play_fail url0 = Inr desc0" by (simp add: example_defs)
  have h5: "SetupAll env_setup_play_fail (BaseURL desc0) (Medias desc0)
              = Some ''bad status code: 461''"
    by (simp add: example_defs)
  have h6: "Play env_setup_play_fail = Some ''bad status code: 455''"
    by (simp add: example_defs)
  show ?thesis
    using setup_and_play_failures_nonfatal [OF h1 h2 h3 h4] h1 h2 h3 h4 h5 h6 by blast
qed

subsection \<open>C7: serialization failures\<close>

text \<open>
  Claim C7: a serialization failure is logged and affects only the value being
  serialized. When the description cannot be serialized, the error line is followed by
  the Setup call and the run reaches the waiting state. When a packet cannot be
  serialized, the callback writes the error line only, and the packets after it are
  handled as they would be on their own.
\<close>

theorem serialization_failure_is_local:
  "(\<forall>u desc e. 2 \<le> length Args \<and> ParseURL env (Args ! 1) = Inr u
        \<and> Start env the_client (Scheme u) (Host u) = None
        \<and> Describe env u = Inr desc \<and> MarshalIndentDesc env desc = Inl e \<longrightarrow>
      snd (main env Args) = Blocked
      \<and> (\<exists>post. fst (main env Args) =
           [Log (Starting (Args ! 1)), CallStart the_client (Scheme u) (Host u),
            CallDescribe u, Log (DescMarshalError e),
            CallSetupAll (BaseURL desc) (Medias desc)] @ post))
   \<and> (\<forall>medi forma pkt e t ds. MarshalIndentPkt env (packetInfo pkt) = Inl e \<longrightarrow>
        onPacketRTP env (medi, forma, pkt) t = t @ [Log (PktMarshalError e)]
        \<and> deliver env t ((medi, forma, pkt) # ds) =
            t @ [Log (PktMarshalError e)] @ deliver env [] ds)"
proof -
  have a: "snd (main env Args) = Blocked
      \<and> (\<exists>post. fst (main env Args) =
           [Log (Starting (Args ! 1)), CallStart the_client (Scheme u) (Host u),
            CallDescribe u, Log (DescMarshalError e),
            CallSetupAll (BaseURL desc) (Medias desc)] @ post)"
    if h: "2 \<le> length Args" "ParseURL env (Args ! 1) = Inr u"
      "Start env the_client (Scheme u) (Host u) = None"
      "Describe env u = Inr desc" and m: "MarshalIndentDesc env desc = Inl e"
    for u desc e
  proof -
    note nf = main_described [OF h]
    have "fst (main env Args) =
           [Log (Starting (Args ! 1)), CallStart the_client (Scheme u) (Host u),
            CallDescribe u, Log (DescMarshalError e),
            CallSetupAll (BaseURL desc) (Medias desc)]
           @ (setup_events env desc @ [CallOnPacketRTPAny, CallPlay]
              @ deliver env [] (arrivals_in_play env) @ play_events env @ [Log Streaming]
              @ deliver env [] (arrivals_after env))"
      using m by (simp add: nf desc_events_def)
    then show ?thesis using nf by auto
  qed
  have b: "onPacketRTP env (medi, forma, pkt) t = t @ [Log (PktMarshalError e)]
        \<and> deliver env t ((medi, forma, pkt) # ds) =
            t @ [Log (PktMarshalError e)] @ deliver env [] ds"
    if "MarshalIndentPkt env (packetInfo pkt) = Inl e" for medi forma pkt e t ds
    using that deliver_Cons [of env t "(medi, forma, pkt)" ds] by simp
  show ?thesis using a b by blast
qed

theorem serialization_failure_is_local_witness:
  "2 \<le> length args0
   \<and> ParseURL env_packet_unserializable (args0 ! 1) = Inr url0
   \<and> Start env_packet_unserializable the_client (Scheme url0) (Host url0) = None
   \<and> Describe env_packet_unserializable url0 = Inr desc0
   \<and> MarshalIndentDesc env_packet_unserializable desc0 = Inl ''json: unsupported type''
   \<and> snd (main env_packet_unserializable args0) = Blocked
   \<and> (\<exists>post. fst (main env_packet_unserializable args0) =
         [Log (Starting (args0 ! 1)), CallStart the_client (Scheme url0) (Host url0),
          CallDescribe url0, Log (DescMarshalError ''json: unsupported type''),
          CallSetupAll (BaseURL desc0) (Medias desc0)] @ post)
   \<and> MarshalIndentPkt env_packet_unserializable (packetInfo pkt0)
       = Inl ''json: unsupported value''
   \<and> deliver env_packet_unserializable [Log Streaming]
         [(video0, ''H264'', pkt0), (audio0, ''Opus'', pkt1)] =
       [Log Streaming, Log (PktMarshalError ''json: unsupported value''),
        Log PktHeader, Log (PktJSON ''{ }'')]"
proof -
  have h1: "2 \<le> length args0" by (simp add: args0_def)
  have h2: "ParseURL env_packet_unserializable (args0 ! 1) = Inr url0"
    by (simp add: example_defs env_packet_unserializable_def)
  have h3: "Start env_packet_unserializable the_client (Scheme url0) (Host url0) = None"
    by (simp add: example_defs env_packet_unserializable_def)
  have h4: "Describe env_packet_unserializable url0 = Inr desc0"
    by (simp add: example_defs env_packet_unserializable_def)
  have h5: "MarshalIndentDesc env_packet_unserializable desc0 = Inl ''json: unsupported type''"
    by (simp add: example_defs env_packet_unserializable_def)
  have h6: "MarshalIndentPkt env_packet_unserializable (packetInfo pkt0)
       = Inl ''json: unsupported value''"
    by (simp add: example_defs env_packet_unserializable_def packetInfo_def pkt0_def)
  have h7: "deliver env_packet_unserializable [] [(audio0, ''Opus'', pkt1)]
       = [Log PktHeader, Log (PktJSON ''{ }'')]"
    by (simp add: example_defs env_packet_unserializable_def packetInfo_def pkt1_def)
  note t = serialization_failure_is_local [of args0 env_packet_unserializable]
  have a: "snd (main env_packet_unserializable args0) = Blocked
   \<and> (\<exists>post. fst (main env_packet_unserializable args0) =
         [Log (Starting (args0 ! 1)), CallStart the_client (Scheme url0) (Host url0),
          CallDescribe url0, Log (DescMarshalError ''json: unsupported type''),
          CallSetupAll (BaseURL desc0) (Medias desc0)] @ post)"
    using t h1 h2 h3 h4 h5 by blast
  have "deliver env_packet_unserializable [Log Streaming]
         ((video0, ''H264'', pkt0) # [(audio0, ''Opus'', pkt1)]) =
       [Log Streaming] @ [Log (PktMarshalError ''json: unsupported value'')]
         @ deliver env_packet_unserializable [] [(audio0, ''Opus'', pkt1)]"
    using t h6 by blast
  then have b: "deliver env_packet_unserializable [Log Streaming]
         [(video0, ''H264'', pkt0), (audio0, ''Opus'', pkt1)] =
       [Log Streaming, Log (PktMarshalError ''json: unsupported value''),
        Log PktHeader, Log (PktJSON ''{ }'')]"
    unfolding h7 by simp
  show ?thesis using h1 h2 h3 h4 h5 h6 a b by blast
qed

subsection \<open>C8: the callback keeps no state\<close>

text \<open>
  Claim C8: what the callback writes for a packet is a function of that packet (and of
  the serializer) alone: it does not depend on the log written so far, on the packets
  delivered before, or on the media and format. Two packets delivered in succession
  each produce the output they would produce alone.
\<close>

theorem callback_is_stateless:
  "onPacketRTP env (medi, forma, pkt) t =
     t @ (case MarshalIndentPkt env (packetInfo pkt) of
            Inl e \<Rightarrow> [Log (PktMarshalError e)]
          | Inr packetJSON \<Rightarrow> [Log PktHeader, Log (PktJSON packetJSON)])
   \<and> onPacketRTP env (medi, forma, pkt) t = t @ onPacketRTP env (medi', forma', pkt) []
   \<and> deliver env t (ds @ [(medi, forma, pkt)]) =
       deliver env t ds @ onPacketRTP env (medi', forma', pkt) []
   \<and> deliver env t [(medi1, forma1, p1), (medi2, forma2, p2)] =
       t @ onPacketRTP env (medi1, forma1, p1) [] @ onPacketRTP env (medi2, forma2, p2) []"
proof -
  have a: "onPacketRTP env (medi, forma, pkt) t =
     t @ (case MarshalIndentPkt env (packetInfo pkt) of
            Inl e \<Rightarrow> [Log (PktMarshalError e)]
          | Inr packetJSON \<Rightarrow> [Log PktHeader, Log (PktJSON packetJSON)])"
    by (simp split: sum.splits)
  have i: "onPacketRTP env (medi, forma, pkt) [] = onPacketRTP env (medi', forma', pkt) []"
    by simp
  have b: "onPacketRTP env (medi, forma, pkt) t = t @ onPacketRTP env (medi', forma', pkt) []"
    using onPacketRTP_append [of env "(medi, forma, pkt)" t] i by simp
  have "deliver env [] [(medi, forma, pkt)] = onPacketRTP env (medi, forma, pkt) []"
    by simp
  then have c: "deliver env t (ds @ [(medi, forma, pkt)]) =
       deliver env t ds @ onPacketRTP env (medi', forma', pkt) []"
    using deliver_app2 [of env t ds "[(medi, forma, pkt)]"] i by simp
  have d: "deliver env t [(medi1, forma1, p1), (medi2, forma2, p2)] =
       t @ onPacketRTP env (medi1, forma1, p1) [] @ onPacketRTP env (medi2, forma2, p2) []"
    using deliver_Cons [of env t "(medi1, forma1, p1)" "[(medi2, forma2, p2)]"]
      deliver_Cons [of env "[]" "(medi2, forma2, p2)" "[]"]
    by simp
  show ?thesis using a b c d by blast
qed

subsection \<open>C9: the main routine never returns\<close>

text \<open>
  Claim C9: the main routine of main.go never returns and never runs the deferred
  Close. A run that issues Play ends in the unbounded wait, after the streaming line
  and with the later packets handled; the run ends in the wait exactly when arguments,
  URL, Connect and Describe were all accepted, and the result of Play has no influence
  on how the run ends.
\<close>

theorem main_never_returns:
  "snd (main env Args) \<noteq> Returned
   \<and> CallClose \<notin> set (fst (main env Args))
   \<and> (CallPlay \<in> set (fst (main env Args)) \<longrightarrow>
        snd (main env Args) = Blocked
        \<and> (\<exists>pre. fst (main env Args) =
              pre @ [Log Streaming] @ deliver env [] (arrivals_after env)))
   \<and> (snd (main env Args) = Blocked) =
       (\<exists>u desc. 2 \<le> length Args \<and> ParseURL env (Args ! 1) = Inr u
          \<and> Start env the_client (Scheme u) (Host u) = None \<and> Describe env u = Inr desc)
   \<and> snd (main (env\<lparr>Play := p\<rparr>) Args) = snd (main env Args)"
proof (cases rule: main_cases [where Args = Args and env = env])
  case no_args
  then show ?thesis by (simp add: main_no_args)
next
  case (usage a0)
  then show ?thesis by (simp add: main_usage)
next
  case (bad_url e)
  have "main (env\<lparr>Play := p\<rparr>) Args = ([Log (CannotParse e)], Exited)"
    using bad_url by (intro main_bad_url) simp_all
  then show ?thesis using bad_url by (simp add: main_bad_url [OF bad_url])
next
  case (connect u e)
  have "main (env\<lparr>Play := p\<rparr>) Args = ([Log (Starting (Args ! 1)),
      CallStart the_client (Scheme u) (Host u), Log (ConnectError e)], Exited)"
    using connect by (intro main_connect_failed) simp_all
  then show ?thesis using connect by (simp add: main_connect_failed [OF connect])
next
  case (describe u e)
  have "main (env\<lparr>Play := p\<rparr>) Args = ([Log (Starting (Args ! 1)),
      CallStart the_client (Scheme u) (Host u), CallDescribe u, Log (DescribeError e)], Exited)"
    using describe by (intro main_describe_failed) simp_all
  then show ?thesis using describe by (simp add: main_describe_failed [OF describe])
next
  case (described u desc)
  note nf = main_described [OF described]
  have "\<exists>d. main (env\<lparr>Play := p\<rparr>) Args = (d, Blocked)"
    using described main_described [of Args "env\<lparr>Play := p\<rparr>" u desc] by simp
  then have p: "snd (main (env\<lparr>Play := p\<rparr>) Args) = Blocked" by auto
  have c: "CallClose \<notin> set (fst (main env Args))"
    using deliver_pkt_events [of env "arrivals_in_play env"]
      deliver_pkt_events [of env "arrivals_after env"]
    by (auto simp: nf desc_events_def setup_events_def play_events_def list_all_iff
        split: sum.splits option.splits)
  have s: "\<exists>pre. fst (main env Args) = pre @ [Log Streaming] @ deliver env [] (arrivals_after env)"
  proof (intro exI)
    show "fst (main env Args) =
      ([Log (Starting (Args ! 1)), CallStart the_client (Scheme u) (Host u), CallDescribe u]
        @ desc_events env desc @ [CallSetupAll (BaseURL desc) (Medias desc)]
        @ setup_events env desc @ [CallOnPacketRTPAny, CallPlay]
        @ deliver env [] (arrivals_in_play env) @ play_events env)
      @ [Log Streaming] @ deliver env [] (arrivals_after env)"
      by (simp add: nf)
  qed
  have b: "snd (main env Args) = Blocked" by (simp add: nf)
  have e: "\<exists>u desc. 2 \<le> length Args \<and> ParseURL env (Args ! 1) = Inr u
          \<and> Start env the_client (Scheme u) (Host u) = None \<and> Describe env u = Inr desc"
    using described by blast
  show ?thesis using p c s b e by simp
qed

theorem main_never_returns_witness:
  "CallPlay \<in> set (fst (main env_setup_play_fail args0))
   \<and> snd (main env_setup_play_fail args0) = Blocked
   \<and> snd (main env_ok args0) = Blocked
   \<and> CallPlay \<notin> set (fst (main env_unreachable args0))
   \<and> snd (main env_unreachable args0) = Exited"
proof -
  have h: "CallPlay \<in> set (fst (main env_setup_play_fail args0))"
    by (simp add: example_defs main_def Let_def deliver_acc_Cons)
  have a: "snd (main env_setup_play_fail args0) = Blocked"
    using main_never_returns [of env_setup_play_fail args0] h by blast
  have "\<exists>u desc. 2 \<le> length args0 \<and> ParseURL env_ok (args0 ! 1) = Inr u
          \<and> Start env_ok the_client (Scheme u) (Host u) = None \<and> Describe env_ok u = Inr desc"
    by (simp add: example_defs)
  then have b: "snd (main env_ok args0) = Blocked"
    using main_never_returns [of env_ok args0] by blast
  have "\<not> (\<exists>u desc. 2 \<le> length args0 \<and> ParseURL env_unreachable (args0 ! 1) = Inr u
          \<and> Start env_unreachable the_client (Scheme u) (Host u) = None
          \<and> Describe env_unreachable u = Inr desc)"
    by (simp add: example_defs)
  then have "snd (main env_unreachable args0) \<noteq> Blocked"
    using main_never_returns [of env_unreachable args0] by blast
  then have c: "CallPlay \<notin> set (fst (main env_unreachable args0))"
    using main_never_returns [of env_unreachable args0] by blast
  have d: "snd (main env_unreachable args0) = Exited"
    by (simp add: example_defs main_def Let_def)
  show ?thesis using h a b c d by blast
qed

subsection \<open>C10: the two variants\<close>

text \<open>
  Claim C10: the two variants agree up to the end of the shorter one. They take the
  same fatal exits with the same output; where the shorter variant returns (and runs its
  deferred Close), the longer one ends in the wait, and the shorter run without its
  final Close is a prefix of the longer run that holds every session-description block
  of it and is followed there by the Setup call. Both start the client with read and
  write timeouts of five seconds and any-port enabled.
\<close>

theorem variants_agree_on_shared_prefix:
  "(snd (main_part_000 env Args) = Returned) = (snd (main env Args) = Blocked)
   \<and> (snd (main_part_000 env Args) \<noteq> Returned \<longrightarrow> main_part_000 env Args = main env Args)
   \<and> (snd (main_part_000 env Args) = Returned \<longrightarrow>
        (\<exists>pre b ms rest. fst (main_part_000 env Args) = pre @ [CallClose]
           \<and> fst (main env Args) = pre @ CallSetupAll b ms # rest
           \<and> prefix pre (fst (main env Args))
           \<and> filter is_DescJSON pre = filter is_DescJSON (fst (main env Args))))
   \<and> (CallStart c s h \<in> set (fst (main_part_000 env Args))) =
       (CallStart c s h \<in> set (fst (main env Args)))
   \<and> (CallStart c s h \<in> set (fst (main env Args)) \<longrightarrow>
        ReadTimeout c = 5000000000 \<and> WriteTimeout c = 5000000000 \<and> AnyPortEnable c)"
proof (cases rule: main_cases [where Args = Args and env = env])
  case no_args
  then show ?thesis by (simp add: main_no_args main_part_000_no_args)
next
  case (usage a0)
  then show ?thesis by (simp add: main_usage main_part_000_usage)
next
  case (bad_url e)
  then show ?thesis by (simp add: main_bad_url [OF bad_url] main_part_000_bad_url [OF bad_url])
next
  case (connect u e)
  then show ?thesis
    by (simp add: main_connect_failed [OF connect] main_part_000_connect_failed [OF connect]
        Second_def)
next
  case (describe u e)
  then show ?thesis
    by (simp add: main_describe_failed [OF describe] main_part_000_describe_failed [OF describe]
        Second_def)
next
  case (described u desc)
  note nf = main_described [OF described]
  note nf0 = main_part_000_described [OF described]
  let ?pre = "[Log (Starting (Args ! 1)), CallStart the_client (Scheme u) (Host u),
               CallDescribe u] @ desc_events env desc"
  let ?rest = "setup_events env desc @ [CallOnPacketRTPAny, CallPlay]
      @ deliver env [] (arrivals_in_play env) @ play_events env @ [Log Streaming]
      @ deliver env [] (arrivals_after env)"
  have m: "fst (main env Args) = ?pre @ CallSetupAll (BaseURL desc) (Medias desc) # ?rest"
    by (simp add: nf)
  have a: "(snd (main_part_000 env Args) = Returned) = (snd (main env Args) = Blocked)"
    by (simp add: nf nf0)
  have b: "snd (main_part_000 env Args) = Returned" by (simp add: nf0)
  have c: "\<exists>pre b ms rest. fst (main_part_000 env Args) = pre @ [CallClose]
           \<and> fst (main env Args) = pre @ CallSetupAll b ms # rest
           \<and> prefix pre (fst (main env Args))
           \<and> filter is_DescJSON pre = filter is_DescJSON (fst (main env Args))"
  proof (intro exI conjI)
    show "fst (main_part_000 env Args) = ?pre @ [CallClose]" by (simp add: nf0)
    show "fst (main env Args) = ?pre @ CallSetupAll (BaseURL desc) (Medias desc) # ?rest"
      by (rule m)
    show "prefix ?pre (fst (main env Args))"
      unfolding m by (rule prefixI) simp
    show "filter is_DescJSON ?pre = filter is_DescJSON (fst (main env Args))"
      by (simp add: nf deliver_no_DescJSON setup_events_no_DescJSON play_events_no_DescJSON)
  qed
  have cs: "(CallStart c s h \<in> set (fst (main env Args))) =
      (c = the_client \<and> s = Scheme u \<and> h = Host u)"
    using deliver_no_CallStart [of c s h env "arrivals_in_play env"]
      deliver_no_CallStart [of c s h env "arrivals_after env"]
    by (auto simp: nf desc_events_def setup_events_def play_events_def
        split: sum.splits option.splits)
  have cs0: "(CallStart c s h \<in> set (fst (main_part_000 env Args))) =
      (c = the_client \<and> s = Scheme u \<and> h = Host u)"
    by (auto simp: nf0 desc_events_def split: sum.splits)
  have d: "CallStart c s h \<in> set (fst (main env Args)) \<longrightarrow>
        ReadTimeout c = 5000000000 \<and> WriteTimeout c = 5000000000 \<and> AnyPortEnable c"
    unfolding cs by (simp add: Second_def)
  show ?thesis using a b c d cs cs0 by blast
qed

theorem variants_agree_on_shared_prefix_witness:
  "snd (main_part_000 env_unreachable args0) \<noteq> Returned
   \<and> main_part_000 env_unreachable args0 = main env_unreachable args0
   \<and> snd (main_part_000 env_ok args0) = Returned
   \<and> snd (main env_ok args0) = Blocked
   \<and> (\<exists>pre b ms rest. fst (main_part_000 env_ok args0) = pre @ [CallClose]
           \<and> fst (main env_ok args0) = pre @ CallSetupAll b ms # rest
           \<and> prefix pre (fst (main env_ok args0))
           \<and> filter is_DescJSON pre = filter is_DescJSON (fst (main env_ok args0)))"
proof -
  have h1: "snd (main_part_000 env_unreachable args0) \<noteq> Returned"
    by (simp add: example_defs main_part_000_def Let_def)
  have h2: "snd (main_part_000 env_ok args0) = Returned"
    by (simp add: example_defs main_part_000_def Let_def)
  note t1 = variants_agree_on_shared_prefix [of env_unreachable args0]
  note t2 = variants_agree_on_shared_prefix [of env_ok args0]
  have a: "main_part_000 env_unreachable args0 = main env_unreachable args0"
    using t1 h1 by blast
  have b: "snd (main env_ok args0) = Blocked"
    using t2 h2 by blast
  have c: "\<exists>pre b ms rest. fst (main_part_000 env_ok args0) = pre @ [CallClose]
           \<and> fst (main env_ok args0) = pre @ CallSetupAll b ms # rest
           \<and> prefix pre (fst (main env_ok args0))
           \<and> filter is_DescJSON pre = filter is_DescJSON (fst (main env_ok args0))"
    using t2 h2 by blast
  show ?thesis using h1 h2 a b c by blast
qed

end
